theory Spec2Isabelle
  imports Main
begin

section \<open>The TOON utility: data model\<close>

text \<open>
  The script \<^verbatim>\<open>lib/toon_util.py\<close> converts between JSON and TOON text and extracts a
  field of a decoded document by a dotted path. The model below follows the script
  function by function.

  \<^item> A Python \<^verbatim>\<open>str\<close> is a HOL \<open>string\<close>, each \<open>char\<close> read as the code point of
    that number (the code points below 256).
  \<^item> A decoded document is a value of \<open>json\<close>. Python's \<^verbatim>\<open>None\<close> is \<open>JNull\<close>: the
    decoder returns it for the JSON null, and \<^verbatim>\<open>dict.get\<close> returns the very same
    object for a key that is not there.
  \<^item> A \<^verbatim>\<open>dict\<close> is an association list in insertion order, read with \<open>map_of\<close>.
    A Python dict never holds a key twice, so every dict is such a list with distinct
    keys; the theorems hold for all lists.
  \<^item> A \<^verbatim>\<open>float\<close> is carried as the text that \<^verbatim>\<open>repr\<close> prints for it when it is
    finite, or as one of the three non-finite values; no arithmetic is done on it.
  \<^item> Every \<^verbatim>\<open>raise\<close> is a value \<open>Inl e\<close> of the result type \<open>error + 'a\<close>.
\<close>

datatype error = OSError | ValueError | IndexError | JSONDecodeError | ToonDecodeError | ToonEncodeError

datatype py_float = Finite string | PosInf | NegInf | NaN

datatype json =
    JNull
  | JBool bool
  | JInt int
  | JFloat py_float
  | JStr string
  | JList "json list"
  | JDict "(string \<times> json) list"

fun isinstance_dict :: "json \<Rightarrow> bool" where
  "isinstance_dict (JDict kvs) = True"
| "isinstance_dict v = False"

fun isinstance_list :: "json \<Rightarrow> bool" where
  "isinstance_list (JList xs) = True"
| "isinstance_list v = False"

subsection \<open>The file system and the external functions\<close>

text \<open>
  The file system is the text stored under each path that \<^verbatim>\<open>open(path, 'r')\<close> can
  open, and the set of paths that \<^verbatim>\<open>open(path, 'w')\<close> can open. A path is the string
  the script is given. Opening fails with \<^verbatim>\<open>OSError\<close> (the class of
  \<^verbatim>\<open>FileNotFoundError\<close> and \<^verbatim>\<open>PermissionError\<close>) and changes nothing.
\<close>

record filesystem =
  files :: "string \<rightharpoonup> string"
  writable :: "string \<Rightarrow> bool"

definition read_file :: "filesystem \<Rightarrow> string \<Rightarrow> error + string" where
  "read_file fs path = (case files fs path of None \<Rightarrow> Inl OSError | Some text \<Rightarrow> Inr text)"

definition write_file :: "filesystem \<Rightarrow> string \<Rightarrow> string \<Rightarrow> error + filesystem" where
  "write_file fs path text =
     (if writable fs path then Inr (fs\<lparr>files := (files fs)(path \<mapsto> text)\<rparr>) else Inl OSError)"

text \<open>
  The script imports \<^verbatim>\<open>encode\<close> and \<^verbatim>\<open>decode\<close> from the \<^verbatim>\<open>toon\<close> package and
  parses JSON with the standard library. None of the three is code of the script: they are
  parameters of the model, each free to raise. The last field is the interpreter's limit
  on the number of digits that \<^verbatim>\<open>int()\<close> converts (\<^verbatim>\<open>sys.get_int_max_str_digits()\<close>,
  4300 unless set otherwise, 0 for no limit).
\<close>

record env =
  toon_encode :: "json \<Rightarrow> error + string"
  toon_decode :: "string \<Rightarrow> error + json"
  json_load :: "string \<Rightarrow> error + json"
  int_max_str_digits :: nat

subsection \<open>Strings: \<^verbatim>\<open>split\<close>, \<^verbatim>\<open>isdigit\<close>, \<^verbatim>\<open>int\<close>, \<^verbatim>\<open>str\<close>\<close>

text \<open>\<^verbatim>\<open>s.split(sep)\<close> for a separator of one character: never an empty list.\<close>

fun str_split :: "char \<Rightarrow> string \<Rightarrow> string list" where
  "str_split sep [] = [[]]"
| "str_split sep (c # cs) =
     (if c = sep then [] # str_split sep cs
      else (case str_split sep cs of [] \<Rightarrow> [[c]] | p # ps \<Rightarrow> (c # p) # ps))"

text \<open>
  \<^verbatim>\<open>str.isdigit\<close> holds of a non-empty string of digit characters. Below 256 these are
  the ten decimal digits and the superscripts \<^verbatim>\<open>U+00B2\<close>, \<^verbatim>\<open>U+00B3\<close> and \<^verbatim>\<open>U+00B9\<close>.
  \<^verbatim>\<open>int()\<close> accepts the decimal digits only and raises \<^verbatim>\<open>ValueError\<close> on a
  superscript, and on a string longer than the interpreter's limit. The script calls
  \<^verbatim>\<open>int(part)\<close> only after \<^verbatim>\<open>part.isdigit()\<close>, so \<open>py_int\<close> is \<^verbatim>\<open>int\<close> on
  such strings: no sign, blank or underscore to treat.
\<close>

definition is_decimal_char :: "char \<Rightarrow> bool" where
  "is_decimal_char c = (48 \<le> (of_char c :: nat) \<and> (of_char c :: nat) \<le> 57)"

definition is_digit_char :: "char \<Rightarrow> bool" where
  "is_digit_char c =
     (is_decimal_char c \<or> (of_char c :: nat) = 178 \<or> (of_char c :: nat) = 179
        \<or> (of_char c :: nat) = 185)"

definition isdigit :: "string \<Rightarrow> bool" where
  "isdigit s = (s \<noteq> [] \<and> list_all is_digit_char s)"

definition decimal_value :: "string \<Rightarrow> nat" where
  "decimal_value s = foldl (\<lambda>acc c. 10 * acc + ((of_char c :: nat) - 48)) 0 s"

definition py_int :: "nat \<Rightarrow> string \<Rightarrow> error + nat" where
  "py_int max_str_digits s =
     (if \<not> list_all is_decimal_char s then Inl ValueError
      else if 0 < max_str_digits \<and> max_str_digits < length s then Inl ValueError
      else Inr (decimal_value s))"

definition digit_char :: "nat \<Rightarrow> char" where
  "digit_char d = char_of (48 + d)"

fun str_nat :: "nat \<Rightarrow> string" where
  "str_nat n = (if n < 10 then [digit_char n] else str_nat (n div 10) @ [digit_char (n mod 10)])"

declare str_nat.simps [simp del]

definition str_int :: "int \<Rightarrow> string" where
  "str_int i = (if i < 0 then CHR ''-'' # str_nat (nat (- i)) else str_nat (nat i))"

fun float_str :: "py_float \<Rightarrow> string" where
  "float_str (Finite r) = r"
| "float_str PosInf = ''inf''"
| "float_str NegInf = ''-inf''"
| "float_str NaN = ''nan''"

text \<open>
  \<^verbatim>\<open>str(value)\<close> of a scalar. The script never takes \<^verbatim>\<open>str\<close> of a list or a dict
  (line 78 sends both to \<^verbatim>\<open>json.dumps\<close>), and their \<^verbatim>\<open>repr\<close> is not modelled:
  \<open>py_str\<close> has no equation for them.
\<close>

fun py_str :: "json \<Rightarrow> string" where
  "py_str JNull = ''None''"
| "py_str (JBool b) = (if b then ''True'' else ''False'')"
| "py_str (JInt i) = str_int i"
| "py_str (JFloat f) = float_str f"
| "py_str (JStr s) = s"

subsection \<open>\<^verbatim>\<open>json.dumps\<close>\<close>

text \<open>
  \<^verbatim>\<open>json.dumps\<close> with its defaults (\<^verbatim>\<open>ensure_ascii=True\<close>, \<^verbatim>\<open>allow_nan=True\<close>).
  A string is quoted; the quote, the backslash and five control characters have short
  escapes, a character from the blank to the tilde stands for itself, any other is
  \<^verbatim>\<open>\u00xx\<close> in lower-case hexadecimal.
\<close>

definition hex_char :: "nat \<Rightarrow> char" where
  "hex_char d = (if d < 10 then char_of (48 + d) else char_of (87 + d))"

definition escape_char :: "char \<Rightarrow> string" where
  "escape_char c =
     (let n = (of_char c :: nat) in
      if n = 0x22 then [CHR 0x5C, CHR 0x22]
      else if n = 0x5C then [CHR 0x5C, CHR 0x5C]
      else if n = 0x08 then [CHR 0x5C, CHR ''b'']
      else if n = 0x0C then [CHR 0x5C, CHR ''f'']
      else if n = 0x0A then [CHR 0x5C, CHR ''n'']
      else if n = 0x0D then [CHR 0x5C, CHR ''r'']
      else if n = 0x09 then [CHR 0x5C, CHR ''t'']
      else if 0x20 \<le> n \<and> n \<le> 0x7E then [c]
      else [CHR 0x5C, CHR ''u'', CHR ''0'', CHR ''0'', hex_char (n div 16), hex_char (n mod 16)])"

definition encode_string :: "string \<Rightarrow> string" where
  "encode_string s = CHR 0x22 # concat (map escape_char s) @ [CHR 0x22]"

fun float_json :: "py_float \<Rightarrow> string" where
  "float_json (Finite r) = r"
| "float_json PosInf = ''Infinity''"
| "float_json NegInf = ''-Infinity''"
| "float_json NaN = ''NaN''"

text \<open>\<^verbatim>\<open>sep.join(items)\<close>.\<close>

fun join :: "string \<Rightarrow> string list \<Rightarrow> string" where
  "join sep [] = []"
| "join sep [x] = x"
| "join sep (x # y # ys) = x @ sep @ join sep (y # ys)"

text \<open>\<^verbatim>\<open>json.dumps(value)\<close>: one line, items separated by \<^verbatim>\<open>", "\<close>, keys by \<^verbatim>\<open>": "\<close>.\<close>

fun dumps :: "json \<Rightarrow> string" where
  "dumps JNull = ''null''"
| "dumps (JBool b) = (if b then ''true'' else ''false'')"
| "dumps (JInt i) = str_int i"
| "dumps (JFloat f) = float_json f"
| "dumps (JStr s) = encode_string s"
| "dumps (JList xs) = ''['' @ join '', '' (map dumps xs) @ '']''"
| "dumps (JDict kvs) =
     ''{'' @ join '', '' (map (\<lambda>kv. encode_string (fst kv) @ '': '' @ dumps (snd kv)) kvs) @ ''}''"

text \<open>
  \<^verbatim>\<open>json.dumps(value, indent=n)\<close>: each item of a non-empty list or dict on a line of its
  own, indented by \<open>n\<close> blanks for each level of nesting; items separated by a comma with
  no blank after it; an empty list or dict stays on one line.
\<close>

definition newline_indent :: "nat \<Rightarrow> nat \<Rightarrow> string" where
  "newline_indent n level = CHR 0x0A # replicate (n * level) CHR '' ''"

fun dumps_level :: "nat \<Rightarrow> nat \<Rightarrow> json \<Rightarrow> string" where
  "dumps_level n level JNull = ''null''"
| "dumps_level n level (JBool b) = (if b then ''true'' else ''false'')"
| "dumps_level n level (JInt i) = str_int i"
| "dumps_level n level (JFloat f) = float_json f"
| "dumps_level n level (JStr s) = encode_string s"
| "dumps_level n level (JList xs) =
     (if xs = [] then ''[]''
      else ''['' @ newline_indent n (Suc level)
           @ join ('','' @ newline_indent n (Suc level)) (map (dumps_level n (Suc level)) xs)
           @ newline_indent n level @ '']'')"
| "dumps_level n level (JDict kvs) =
     (if kvs = [] then ''{}''
      else ''{'' @ newline_indent n (Suc level)
           @ join ('','' @ newline_indent n (Suc level))
               (map (\<lambda>kv. encode_string (fst kv) @ '': '' @ dumps_level n (Suc level) (snd kv)) kvs)
           @ newline_indent n level @ ''}'')"

definition dumps_indent :: "nat \<Rightarrow> json \<Rightarrow> string" where
  "dumps_indent n value = dumps_level n 0 value"

section \<open>The operations of the script\<close>

subsection \<open>Conversion of files (lines 27 to 55)\<close>

text \<open>
  \<^verbatim>\<open>if output_path:\<close> is Python's truth test: \<^verbatim>\<open>None\<close> and the empty string both
  fail it. The same test guards \<^verbatim>\<open>field\<close> in \<open>read_toon\<close>.
\<close>

fun truthy :: "string option \<Rightarrow> bool" where
  "truthy None = False"
| "truthy (Some s) = (s \<noteq> [])"


definition decode_file ::
  "env \<Rightarrow> filesystem \<Rightarrow> string \<Rightarrow> string option \<Rightarrow> (error + string) \<times> filesystem" where
  "decode_file E fs toon_path output_path =
     (case read_file fs toon_path of
        Inl e \<Rightarrow> (Inl e, fs)
      | Inr toon_str \<Rightarrow>
          (case toon_decode E toon_str of
             Inl e \<Rightarrow> (Inl e, fs)
           | Inr data \<Rightarrow>
               (let json_str = dumps_indent 2 data in
                if truthy output_path then
                  (case write_file fs (the output_path) json_str of
                     Inl e \<Rightarrow> (Inl e, fs)
                   | Inr fs' \<Rightarrow> (Inr (''Wrote '' @ the output_path), fs'))
                else (Inr json_str, fs))))"

subsection \<open>Field extraction (lines 58 to 90)\<close>

text \<open>\<^verbatim>\<open>value.get(part)\<close> on a dict, and \<^verbatim>\<open>value[i]\<close> on a list for \<open>i\<close> not negative.\<close>

definition dict_get :: "(string \<times> json) list \<Rightarrow> string \<Rightarrow> json" where
  "dict_get kvs key = (case map_of kvs key of None \<Rightarrow> JNull | Some v \<Rightarrow> v)"

definition list_getitem :: "json list \<Rightarrow> nat \<Rightarrow> error + json" where
  "list_getitem xs i = (if i < length xs then Inr (xs ! i) else Inl IndexError)"

text \<open>
  The loop of lines 69 to 76 over the remaining parts, from the current \<^verbatim>\<open>value\<close>.
  The \<^verbatim>\<open>break\<close> leaves the loop with \<^verbatim>\<open>None\<close>; a key that is missing does not
  leave it.
\<close>

fun walk :: "nat \<Rightarrow> json \<Rightarrow> string list \<Rightarrow> error + json" where
  "walk lim value [] = Inr value"
| "walk lim value (part # parts) =
     (if isinstance_dict value then
        (case value of JDict kvs \<Rightarrow> walk lim (dict_get kvs part) parts | _ \<Rightarrow> Inr JNull)
      else if isinstance_list value \<and> isdigit part then
        (case value of
           JList xs \<Rightarrow>
             (case py_int lim part of
                Inl e \<Rightarrow> Inl e
              | Inr i \<Rightarrow>
                  (case list_getitem xs i of
                     Inl e \<Rightarrow> Inl e
                   | Inr v \<Rightarrow> walk lim v parts))
         | _ \<Rightarrow> Inr JNull)
      else Inr JNull)"

text \<open>Lines 78 to 83: what is returned for the value the loop ends with.\<close>

definition result_text :: "json \<Rightarrow> string" where
  "result_text value =
     (if isinstance_dict value \<or> isinstance_list value then dumps value
      else if value \<noteq> JNull then py_str value
      else [])"

definition read_toon :: "env \<Rightarrow> filesystem \<Rightarrow> string \<Rightarrow> string option \<Rightarrow> error + string" where
  "read_toon E fs toon_path field =
     (case read_file fs toon_path of
        Inl e \<Rightarrow> Inl e
      | Inr toon_str \<Rightarrow>
          (case toon_decode E toon_str of
             Inl e \<Rightarrow> Inl e
           | Inr data \<Rightarrow>
               if truthy field then
                 (case walk (int_max_str_digits E) data (str_split CHR ''.'' (the field)) of
                    Inl e \<Rightarrow> Inl e
                  | Inr value \<Rightarrow> Inr (result_text value))
               else Inr (dumps_indent 2 data)))"

definition get_field :: "env \<Rightarrow> filesystem \<Rightarrow> string \<Rightarrow> string \<Rightarrow> error + string" where
  "get_field E fs toon_path field = read_toon E fs toon_path (Some field)"

section \<open>The specification's notions\<close>

text \<open>
  The specification describes the traversal as a route through the document: each
  segment is a key of the mapping reached so far, or an index into the sequence reached
  so far when the segment is all digits. \<open>spec_resolve\<close> follows these words: it gives
  the value at the end of the route when the document contains every step of it, and
  \<open>None\<close> when some step is not there. It is written from the specification, not from
  the loop, and is compared with the loop (\<open>walk\<close>) below. A segment is all digits when
  \<^verbatim>\<open>isdigit\<close> says so, and its numeric value is what \<^verbatim>\<open>int\<close> returns.
\<close>

fun spec_resolve :: "nat \<Rightarrow> json \<Rightarrow> string list \<Rightarrow> json option" where
  "spec_resolve lim v [] = Some v"
| "spec_resolve lim (JDict kvs) (seg # segs) =
     (case map_of kvs seg of None \<Rightarrow> None | Some v \<Rightarrow> spec_resolve lim v segs)"
| "spec_resolve lim (JList xs) (seg # segs) =
     (if isdigit seg then
        (case py_int lim seg of
           Inl e \<Rightarrow> None
         | Inr i \<Rightarrow> if i < length xs then spec_resolve lim (xs ! i) segs else None)
      else None)"
| "spec_resolve lim v (seg # segs) = None"

subsection \<open>Example inputs\<close>

text \<open>
  A file system with two TOON files and one JSON file, in which only \<^verbatim>\<open>out.txt\<close> can
  be written, and an environment whose decoder and parser read the document \<open>doc\<close> from
  the files with text, the empty mapping from the empty file, and whose encoder prints a
  fixed text. The documents are those of the specification's examples.
\<close>

definition ex_fs :: filesystem where
  "ex_fs =
     \<lparr>files = [''doc.toon'' \<mapsto> ''(toon text)'', ''doc.json'' \<mapsto> ''(json text)'',
               ''empty.toon'' \<mapsto> []],
      writable = (\<lambda>p. p = ''out.txt'')\<rparr>"

definition ex_env :: "json \<Rightarrow> env" where
  "ex_env doc =
     \<lparr>toon_encode = (\<lambda>d. if d = doc then Inr ''(toon text)'' else Inl ToonEncodeError),
      toon_decode =
        (\<lambda>s. if s = ''(toon text)'' then Inr doc
             else if s = [] then Inr (JDict [])
             else Inl ToonDecodeError),
      json_load = (\<lambda>s. if s = ''(json text)'' then Inr doc else Inl JSONDecodeError),
      int_max_str_digits = 4300\<rparr>"

definition style_doc :: json where
  "style_doc = JDict [(''style'', JDict [(''tone'', JStr ''epic'')])]"

definition items_doc :: json where
  "items_doc = JDict [(''items'', JList [JStr ''x'', JStr ''y''])]"

definition a1_doc :: json where
  "a1_doc = JDict [(''a'', JInt 1)]"

definition abc_doc :: json where
  "abc_doc = JDict [(''a'', JDict [(''b'', JInt 1), (''c'', JInt 2)])]"


text \<open>Documents with the empty string as a key: a key like any other in JSON.\<close>

definition empty_key_str_doc :: json where
  "empty_key_str_doc = JDict [([], JStr ''x'')]"

definition empty_key_list_doc :: json where
  "empty_key_list_doc = JDict [([], JList [JInt 1])]"


section \<open>Properties of the traversal\<close>

lemma str_split_not_Nil: "str_split sep s \<noteq> []"
  by (induction s) (auto split: list.split)

lemma str_split_Nil: "str_split sep [] = [[]]"
  by simp

lemma walk_JNull: "walk lim JNull parts = Inr JNull"
  by (cases parts) simp_all

lemma walk_scalar:
  "\<not> isinstance_dict v \<Longrightarrow> \<not> isinstance_list v \<Longrightarrow> walk lim v (part # parts) = Inr JNull"
  by simp

lemma walk_missing_key:
  "map_of kvs part = None \<Longrightarrow> walk lim (JDict kvs) (part # parts) = Inr JNull"
  by (simp add: dict_get_def walk_JNull)

lemma walk_not_digits:
  "\<not> isdigit part \<Longrightarrow> walk lim (JList xs) (part # parts) = Inr JNull"
  by simp


text \<open>
  A segment that \<^verbatim>\<open>isdigit\<close> accepts and \<^verbatim>\<open>int\<close> rejects (a superscript digit, or
  more digits than the interpreter converts) raises \<^verbatim>\<open>ValueError\<close> at a sequence of
  any length. Such a segment is numeric in the sense of line 72 and has no numeric value.
\<close>

lemma walk_int_rejects:
  "isdigit part \<Longrightarrow> py_int lim part = Inl e \<Longrightarrow> walk lim (JList xs) (part # parts) = Inl e"
  by simp

lemma walk_superscript_two:
  "walk lim (JList xs) ([CHR 0xB2] # parts) = Inl ValueError"
  by (simp add: isdigit_def is_digit_char_def is_decimal_char_def py_int_def)

lemma walk_append:
  "walk lim v pre = Inr u \<Longrightarrow> walk lim v (pre @ rest) = walk lim u rest"
proof (induction pre arbitrary: v)
  case Nil
  then show ?case by simp
next
  case (Cons part pre)
  show ?case
  proof (cases v)
    case (JDict kvs)
    with Cons.prems have "walk lim (dict_get kvs part) pre = Inr u" by simp
    then have "walk lim (dict_get kvs part) (pre @ rest) = walk lim u rest"
      by (rule Cons.IH)
    with JDict show ?thesis by simp
  next
    case (JList xs)
    show ?thesis
    proof (cases "isdigit part")
      case False
      with JList Cons.prems have "u = JNull" by simp
      with JList False show ?thesis by (simp add: walk_JNull)
    next
      case True
      with JList Cons.prems obtain i w where
        i: "py_int lim part = Inr i" and w: "list_getitem xs i = Inr w"
        and rest: "walk lim w pre = Inr u"
        by (auto split: sum.splits)
      from rest have "walk lim w (pre @ rest) = walk lim u rest" by (rule Cons.IH)
      with JList True i w show ?thesis by simp
    qed
  qed (use Cons.prems in \<open>simp_all add: walk_JNull\<close>)
qed

lemma spec_resolve_walk:
  "spec_resolve lim v segs = Some r \<Longrightarrow> walk lim v segs = Inr r"
proof (induction segs arbitrary: v)
  case Nil
  then show ?case by simp
next
  case (Cons seg segs)
  then show ?case
    by (cases v) (auto simp: dict_get_def list_getitem_def split: option.splits sum.splits if_splits)
qed

lemma read_toon_None:
  "files fs path = Some contents \<Longrightarrow> toon_decode E contents = Inr doc \<Longrightarrow>
   read_toon E fs path None = Inr (dumps_indent 2 doc)"
  by (simp add: read_toon_def read_file_def)

lemma read_toon_empty:
  "read_toon E fs path (Some []) = read_toon E fs path None"
  by (simp add: read_toon_def split: sum.splits)

lemma read_toon_field:
  "files fs path = Some contents \<Longrightarrow> toon_decode E contents = Inr doc \<Longrightarrow> field \<noteq> [] \<Longrightarrow>
   read_toon E fs path (Some field) =
     (case walk (int_max_str_digits E) doc (str_split CHR ''.'' field) of
        Inl e \<Rightarrow> Inl e | Inr value \<Rightarrow> Inr (result_text value))"
  by (simp add: read_toon_def read_file_def)


subsection \<open>The example inputs\<close>

lemma ex_file: "files ex_fs ''doc.toon'' = Some ''(toon text)''"
  by (simp add: ex_fs_def)

lemma ex_decode: "toon_decode (ex_env doc) ''(toon text)'' = Inr doc"
  by (simp add: ex_env_def)







section \<open>Properties of the file operations\<close>

lemma decode_file_None:
  "decode_file E fs path None = (read_toon E fs path None, fs)"
  by (simp add: decode_file_def read_toon_def split: sum.splits)






section \<open>The claims\<close>

subsection \<open>C1: a path that the document contains\<close>

text \<open>
  C1, as amended. For every TOON file that is read and decoded, and every non-empty
  \<^verbatim>\<open>field\<close>: when the decoded document contains the dotted path (each segment a key of
  the mapping reached, or an all-digits index into the sequence reached) and the path ends
  at a string, \<open>read_toon\<close> returns that string. For the document
  \<^verbatim>\<open>{"style": {"tone": "epic"}}\<close> and the field \<^verbatim>\<open>style.tone\<close> it returns
  \<^verbatim>\<open>epic\<close>; for \<^verbatim>\<open>{"items": ["x", "y"]}\<close> and \<^verbatim>\<open>items.1\<close> it returns \<^verbatim>\<open>y\<close>.
\<close>

theorem read_toon_follows_path:
  assumes fl: "files fs path = Some contents"
    and dec: "toon_decode E contents = Inr doc"
  shows "(field \<noteq> [] \<and>
           spec_resolve (int_max_str_digits E) doc (str_split CHR ''.'' field) = Some (JStr s)
          \<longrightarrow> read_toon E fs path (Some field) = Inr s)
       \<and> (doc = JDict [(''style'', JDict [(''tone'', JStr ''epic'')])]
          \<longrightarrow> read_toon E fs path (Some ''style.tone'') = Inr ''epic'')
       \<and> (doc = JDict [(''items'', JList [JStr ''x'', JStr ''y''])]
          \<longrightarrow> read_toon E fs path (Some ''items.1'') = Inr ''y'')"
proof -
  have general: "read_toon E fs path (Some f) = Inr t"
    if "f \<noteq> []"
      and "spec_resolve (int_max_str_digits E) doc (str_split CHR ''.'' f) = Some (JStr t)"
    for f t
  proof -
    from that(2) have "walk (int_max_str_digits E) doc (str_split CHR ''.'' f) = Inr (JStr t)"
      by (rule spec_resolve_walk)
    with fl dec that(1) show ?thesis
      by (simp add: read_toon_field result_text_def)
  qed
  have style: "read_toon E fs path (Some ''style.tone'') = Inr ''epic''"
    if "doc = JDict [(''style'', JDict [(''tone'', JStr ''epic'')])]"
    using that by (intro general) simp_all
  have items: "read_toon E fs path (Some ''items.1'') = Inr ''y''"
    if "doc = JDict [(''items'', JList [JStr ''x'', JStr ''y''])]"
    using that
    by (intro general) (auto simp: isdigit_def is_digit_char_def is_decimal_char_def
        py_int_def decimal_value_def)
  from general style items show ?thesis by blast
qed

text \<open>The theorem at the two documents of the specification, and at \<^verbatim>\<open>items.0\<close>.\<close>

theorem read_toon_follows_path_witness:
  "read_toon (ex_env style_doc) ex_fs ''doc.toon'' (Some ''style.tone'') = Inr ''epic''
   \<and> read_toon (ex_env items_doc) ex_fs ''doc.toon'' (Some ''items.1'') = Inr ''y''
   \<and> read_toon (ex_env items_doc) ex_fs ''doc.toon'' (Some ''items.0'') = Inr ''x''"
proof -
  have r: "''items.0'' \<noteq> [] \<and>
      spec_resolve (int_max_str_digits (ex_env items_doc)) items_doc
        (str_split CHR ''.'' ''items.0'') = Some (JStr ''x'')"
    by (simp add: items_doc_def isdigit_def is_digit_char_def is_decimal_char_def
        py_int_def decimal_value_def ex_env_def)
  from read_toon_follows_path [of ex_fs "''doc.toon''" "''(toon text)''" "ex_env style_doc"
      style_doc, OF ex_file ex_decode]
  have "read_toon (ex_env style_doc) ex_fs ''doc.toon'' (Some ''style.tone'') = Inr ''epic''"
    by (simp add: style_doc_def)
  moreover from read_toon_follows_path [of ex_fs "''doc.toon''" "''(toon text)''"
      "ex_env items_doc" items_doc, OF ex_file ex_decode]
  have "read_toon (ex_env items_doc) ex_fs ''doc.toon'' (Some ''items.1'') = Inr ''y''"
    by (simp add: items_doc_def)
  moreover from r read_toon_follows_path [of ex_fs "''doc.toon''" "''(toon text)''"
      "ex_env items_doc" items_doc "''items.0''" "''x''", OF ex_file ex_decode]
  have "read_toon (ex_env items_doc) ex_fs ''doc.toon'' (Some ''items.0'') = Inr ''x''"
    by blast
  ultimately show ?thesis by blast
qed

text \<open>
  Without the word non-empty the claim fails. The empty string is a field, and the
  document \<^verbatim>\<open>{"": "x"}\<close> contains the path it names: its one segment is the key
  \<^verbatim>\<open>""\<close>, which leads to the string \<^verbatim>\<open>x\<close>. But line 65 tests \<^verbatim>\<open>if field:\<close>, the
  empty string fails the test, and \<open>read_toon\<close> returns the whole document instead.
\<close>

theorem follows_path_empty_field_counterexample:
  "files ex_fs ''doc.toon'' = Some ''(toon text)''
   \<and> toon_decode (ex_env empty_key_str_doc) ''(toon text)'' = Inr empty_key_str_doc
   \<and> spec_resolve (int_max_str_digits (ex_env empty_key_str_doc)) empty_key_str_doc
        (str_split CHR ''.'' []) = Some (JStr ''x'')
   \<and> read_toon (ex_env empty_key_str_doc) ex_fs ''doc.toon'' (Some []) \<noteq> Inr ''x''"
proof -
  have "read_toon (ex_env empty_key_str_doc) ex_fs ''doc.toon'' (Some [])
        = Inr (dumps_indent 2 empty_key_str_doc)"
    by (simp add: read_toon_empty read_toon_None [OF ex_file ex_decode])
  moreover have "dumps_indent 2 empty_key_str_doc \<noteq> ''x''"
    by (simp add: dumps_indent_def empty_key_str_doc_def)
  ultimately show ?thesis
    by (simp add: ex_file ex_decode) (simp add: empty_key_str_doc_def)
qed

subsection \<open>C2: a path that cannot be followed\<close>

text \<open>
  C2. For every TOON file that is read and decoded and every non-empty \<^verbatim>\<open>field\<close>: if
  the loop has reached the value \<open>v\<close> after the segments \<open>pre\<close> and the next segment
  \<open>seg\<close> is missing from the mapping \<open>v\<close>, or \<open>v\<close> is a scalar (neither mapping nor
  sequence), or \<open>v\<close> is a sequence and \<open>seg\<close> is not numeric (\<^verbatim>\<open>seg.isdigit()\<close> is
  false), then \<open>read_toon\<close> raises no error and returns the empty string. For the
  document \<^verbatim>\<open>{"a": 1}\<close> and the field \<^verbatim>\<open>a.b\<close> it returns the empty string.
\<close>

theorem read_toon_untraversable:
  assumes fl: "files fs path = Some contents"
    and dec: "toon_decode E contents = Inr doc"
  shows "(field \<noteq> [] \<and> str_split CHR ''.'' field = pre @ seg # post
           \<and> walk (int_max_str_digits E) doc pre = Inr v
           \<and> ((\<exists>kvs. v = JDict kvs \<and> map_of kvs seg = None)
                \<or> (\<not> isinstance_dict v \<and> \<not> isinstance_list v)
                \<or> (isinstance_list v \<and> \<not> isdigit seg))
          \<longrightarrow> read_toon E fs path (Some field) = Inr [])
       \<and> (doc = JDict [(''a'', JInt 1)] \<longrightarrow> read_toon E fs path (Some ''a.b'') = Inr [])"
proof -
  have general: "read_toon E fs path (Some f) = Inr []"
    if f: "f \<noteq> []" and parts: "str_split CHR ''.'' f = p @ sg # q"
      and reach: "walk (int_max_str_digits E) doc p = Inr u"
      and stuck: "(\<exists>kvs. u = JDict kvs \<and> map_of kvs sg = None)
                \<or> (\<not> isinstance_dict u \<and> \<not> isinstance_list u)
                \<or> (isinstance_list u \<and> \<not> isdigit sg)"
    for f p sg q u
  proof -
    from stuck have "walk (int_max_str_digits E) u (sg # q) = Inr JNull"
    proof (elim disjE exE conjE)
      fix kvs assume u: "u = JDict kvs" and "map_of kvs sg = None"
      then show ?thesis unfolding u by (intro walk_missing_key)
    next
      assume "\<not> isinstance_dict u" "\<not> isinstance_list u"
      then show ?thesis by (rule walk_scalar)
    next
      assume "isinstance_list u" "\<not> isdigit sg"
      then show ?thesis by (cases u) simp_all
    qed
    with reach have "walk (int_max_str_digits E) doc (p @ sg # q) = Inr JNull"
      by (simp add: walk_append)
    with fl dec f parts show ?thesis
      by (simp add: read_toon_field result_text_def)
  qed
  have example: "read_toon E fs path (Some ''a.b'') = Inr []" if "doc = JDict [(''a'', JInt 1)]"
  proof (rule general [where p = "[''a'']" and sg = "''b''" and q = "[]" and u = "JInt 1"])
    show "walk (int_max_str_digits E) doc [''a''] = Inr (JInt 1)"
      using that by (simp add: dict_get_def)
  qed simp_all
  from general example show ?thesis by blast
qed

text \<open>
  The theorem at one input for each of the three ways: \<^verbatim>\<open>a.b\<close> meets the scalar 1,
  \<^verbatim>\<open>style.mood\<close> a mapping without the key, \<^verbatim>\<open>items.first\<close> a sequence.
\<close>

theorem read_toon_untraversable_witness:
  "read_toon (ex_env a1_doc) ex_fs ''doc.toon'' (Some ''a.b'') = Inr []
   \<and> read_toon (ex_env style_doc) ex_fs ''doc.toon'' (Some ''style.mood'') = Inr []
   \<and> read_toon (ex_env items_doc) ex_fs ''doc.toon'' (Some ''items.first'') = Inr []"
proof -
  have "read_toon (ex_env a1_doc) ex_fs ''doc.toon'' (Some ''a.b'') = Inr []"
    using read_toon_untraversable [of ex_fs "''doc.toon''" "''(toon text)''" "ex_env a1_doc"
        a1_doc, OF ex_file ex_decode]
    by (simp add: a1_doc_def)
  moreover
  have "''style.mood'' \<noteq> [] \<and> str_split CHR ''.'' ''style.mood'' = [''style''] @ ''mood'' # []
        \<and> walk (int_max_str_digits (ex_env style_doc)) style_doc [''style'']
            = Inr (JDict [(''tone'', JStr ''epic'')])
        \<and> ((\<exists>kvs. JDict [(''tone'', JStr ''epic'')] = JDict kvs \<and> map_of kvs ''mood'' = None)
             \<or> (\<not> isinstance_dict (JDict [(''tone'', JStr ''epic'')])
                 \<and> \<not> isinstance_list (JDict [(''tone'', JStr ''epic'')]))
             \<or> (isinstance_list (JDict [(''tone'', JStr ''epic'')]) \<and> \<not> isdigit ''mood''))"
    by (simp add: style_doc_def dict_get_def)
  with read_toon_untraversable [of ex_fs "''doc.toon''" "''(toon text)''" "ex_env style_doc"
      style_doc "''style.mood''" "[''style'']" "''mood''" "[]"
      "JDict [(''tone'', JStr ''epic'')]", OF ex_file ex_decode]
  have "read_toon (ex_env style_doc) ex_fs ''doc.toon'' (Some ''style.mood'') = Inr []"
    by blast
  moreover
  have "''items.first'' \<noteq> [] \<and> str_split CHR ''.'' ''items.first'' = [''items''] @ ''first'' # []
        \<and> walk (int_max_str_digits (ex_env items_doc)) items_doc [''items'']
            = Inr (JList [JStr ''x'', JStr ''y''])
        \<and> ((\<exists>kvs. JList [JStr ''x'', JStr ''y''] = JDict kvs \<and> map_of kvs ''first'' = None)
             \<or> (\<not> isinstance_dict (JList [JStr ''x'', JStr ''y''])
                 \<and> \<not> isinstance_list (JList [JStr ''x'', JStr ''y'']))
             \<or> (isinstance_list (JList [JStr ''x'', JStr ''y'']) \<and> \<not> isdigit ''first''))"
    by (simp add: items_doc_def dict_get_def isdigit_def is_digit_char_def is_decimal_char_def)
  with read_toon_untraversable [of ex_fs "''doc.toon''" "''(toon text)''" "ex_env items_doc"
      items_doc "''items.first''" "[''items'']" "''first''" "[]"
      "JList [JStr ''x'', JStr ''y'']", OF ex_file ex_decode]
  have "read_toon (ex_env items_doc) ex_fs ''doc.toon'' (Some ''items.first'') = Inr []"
    by blast
  ultimately show ?thesis by blast
qed

subsection \<open>C3: an index out of range\<close>



subsection \<open>C4: \<open>get_field\<close> is \<open>read_toon\<close>\<close>

text \<open>
  C4. For every \<^verbatim>\<open>toon_path\<close> and \<^verbatim>\<open>field\<close>, \<open>get_field\<close> returns exactly what
  \<open>read_toon\<close> returns for the same arguments, and raises the same error when
  \<open>read_toon\<close> raises: the two results are equal, whether values or errors.
\<close>

theorem get_field_same_as_read_toon:
  "get_field E fs toon_path field = read_toon E fs toon_path (Some field)"
  by (simp add: get_field_def)

subsection \<open>C6: no field\<close>

text \<open>
  C6. For every TOON file, \<open>read_toon\<close> without a field returns what \<open>decode_file\<close>
  returns without an output path, and \<open>decode_file\<close> then leaves the file system as it
  was; when the file is read and decoded, both return the whole decoded document as
  \<^verbatim>\<open>json.dumps(decode(contents), indent=2)\<close> prints it.
\<close>

theorem read_toon_whole_document:
  "decode_file E fs path None = (read_toon E fs path None, fs)
   \<and> (files fs path = Some contents \<and> toon_decode E contents = Inr doc
      \<longrightarrow> read_toon E fs path None = Inr (dumps_indent 2 doc)
        \<and> decode_file E fs path None = (Inr (dumps_indent 2 doc), fs))"
  by (simp add: decode_file_None read_toon_None)

text \<open>The theorem at the document \<^verbatim>\<open>{"a": 1}\<close>, with the text that is printed.\<close>

theorem read_toon_whole_document_witness:
  "read_toon (ex_env a1_doc) ex_fs ''doc.toon'' None = Inr (dumps_indent 2 a1_doc)
   \<and> decode_file (ex_env a1_doc) ex_fs ''doc.toon'' None = (Inr (dumps_indent 2 a1_doc), ex_fs)
   \<and> dumps_indent 2 a1_doc = [CHR ''{'', CHR 0x0A, CHR '' '', CHR '' '', CHR 0x22, CHR ''a'',
         CHR 0x22, CHR '':'', CHR '' '', CHR ''1'', CHR 0x0A, CHR ''}'']"
proof -
  have "dumps_indent 2 a1_doc = [CHR ''{'', CHR 0x0A, CHR '' '', CHR '' '', CHR 0x22, CHR ''a'',
         CHR 0x22, CHR '':'', CHR '' '', CHR ''1'', CHR 0x0A, CHR ''}'']"
    by code_simp
  with read_toon_whole_document [of "ex_env a1_doc" ex_fs "''doc.toon''" "''(toon text)''" a1_doc]
    ex_file ex_decode [of a1_doc]
  show ?thesis by blast
qed

subsection \<open>C7: what is returned for the value reached\<close>

text \<open>
  C7, as amended. For every TOON file that is read and decoded and every non-empty
  \<^verbatim>\<open>field\<close>: when the traversal ends with a mapping or a sequence, \<open>read_toon\<close>
  returns it as \<^verbatim>\<open>json.dumps\<close> prints it on one line; when it ends with a scalar other
  than \<^verbatim>\<open>None\<close>, \<open>read_toon\<close> returns \<^verbatim>\<open>str\<close> of the scalar. For the document
  \<^verbatim>\<open>{"a": {"b": 1, "c": 2}}\<close> and the field \<^verbatim>\<open>a\<close> it returns \<^verbatim>\<open>{"b": 1, "c": 2}\<close>.
\<close>

theorem read_toon_result_policy:
  assumes fl: "files fs path = Some contents"
    and dec: "toon_decode E contents = Inr doc"
  shows "(field \<noteq> [] \<and> walk (int_max_str_digits E) doc (str_split CHR ''.'' field) = Inr v
           \<and> (isinstance_dict v \<or> isinstance_list v)
          \<longrightarrow> read_toon E fs path (Some field) = Inr (dumps v))
       \<and> (field \<noteq> [] \<and> walk (int_max_str_digits E) doc (str_split CHR ''.'' field) = Inr v
           \<and> \<not> isinstance_dict v \<and> \<not> isinstance_list v \<and> v \<noteq> JNull
          \<longrightarrow> read_toon E fs path (Some field) = Inr (py_str v))
       \<and> (doc = JDict [(''a'', JDict [(''b'', JInt 1), (''c'', JInt 2)])]
          \<longrightarrow> read_toon E fs path (Some ''a'') = Inr ''{\"b\": 1, \"c\": 2}'')"
proof -
  have compact: "dumps (JDict [(''b'', JInt 1), (''c'', JInt 2)]) = ''{\"b\": 1, \"c\": 2}''"
    by code_simp
  have "read_toon E fs path (Some ''a'') = Inr (dumps (JDict [(''b'', JInt 1), (''c'', JInt 2)]))"
    if "doc = JDict [(''a'', JDict [(''b'', JInt 1), (''c'', JInt 2)])]"
    using fl dec that by (simp add: read_toon_field result_text_def dict_get_def)
  with compact fl dec show ?thesis
    by (simp add: read_toon_field result_text_def)
qed

text \<open>The theorem at the fields \<^verbatim>\<open>a\<close> (a mapping) and \<^verbatim>\<open>a.c\<close> (the number 2).\<close>

theorem read_toon_result_policy_witness:
  "read_toon (ex_env abc_doc) ex_fs ''doc.toon'' (Some ''a'') = Inr ''{\"b\": 1, \"c\": 2}''
   \<and> read_toon (ex_env abc_doc) ex_fs ''doc.toon'' (Some ''a'')
       = Inr (dumps (JDict [(''b'', JInt 1), (''c'', JInt 2)]))
   \<and> read_toon (ex_env abc_doc) ex_fs ''doc.toon'' (Some ''a.c'') = Inr ''2''"
proof -
  have w1: "''a'' \<noteq> [] \<and> walk (int_max_str_digits (ex_env abc_doc)) abc_doc
                (str_split CHR ''.'' ''a'') = Inr (JDict [(''b'', JInt 1), (''c'', JInt 2)])
            \<and> (isinstance_dict (JDict [(''b'', JInt 1), (''c'', JInt 2)])
               \<or> isinstance_list (JDict [(''b'', JInt 1), (''c'', JInt 2)]))"
    by (simp add: abc_doc_def dict_get_def)
  have w2: "''a.c'' \<noteq> [] \<and> walk (int_max_str_digits (ex_env abc_doc)) abc_doc
                (str_split CHR ''.'' ''a.c'') = Inr (JInt 2)
            \<and> \<not> isinstance_dict (JInt 2) \<and> \<not> isinstance_list (JInt 2) \<and> JInt 2 \<noteq> JNull"
    by (simp add: abc_doc_def dict_get_def)
  have s: "py_str (JInt 2) = ''2''" by code_simp
  have d: "abc_doc = JDict [(''a'', JDict [(''b'', JInt 1), (''c'', JInt 2)])]"
    by (simp add: abc_doc_def)
  note at_a = read_toon_result_policy [of ex_fs "''doc.toon''" "''(toon text)''" "ex_env abc_doc"
      abc_doc "''a''" "JDict [(''b'', JInt 1), (''c'', JInt 2)]", OF ex_file ex_decode]
  note at_ac = read_toon_result_policy [of ex_fs "''doc.toon''" "''(toon text)''"
      "ex_env abc_doc" abc_doc "''a.c''" "JInt 2", OF ex_file ex_decode]
  from at_a d
  have "read_toon (ex_env abc_doc) ex_fs ''doc.toon'' (Some ''a'') = Inr ''{\"b\": 1, \"c\": 2}''"
    by blast
  moreover from at_a w1
  have "read_toon (ex_env abc_doc) ex_fs ''doc.toon'' (Some ''a'')
        = Inr (dumps (JDict [(''b'', JInt 1), (''c'', JInt 2)]))"
    by blast
  moreover from at_ac w2
  have "read_toon (ex_env abc_doc) ex_fs ''doc.toon'' (Some ''a.c'') = Inr (py_str (JInt 2))"
    by blast
  ultimately show ?thesis by (simp only: s simp_thms)
qed

text \<open>
  Without the word non-empty the claim fails: in the document \<^verbatim>\<open>{"": [1]}\<close> the
  traversal of the empty field (one segment, the key \<^verbatim>\<open>""\<close>) ends with the sequence
  \<^verbatim>\<open>[1]\<close>, but \<open>read_toon\<close> does not traverse for a field that fails the test of
  line 65 and returns the whole document, on several lines.
\<close>

theorem result_policy_empty_field_counterexample:
  "files ex_fs ''doc.toon'' = Some ''(toon text)''
   \<and> toon_decode (ex_env empty_key_list_doc) ''(toon text)'' = Inr empty_key_list_doc
   \<and> walk (int_max_str_digits (ex_env empty_key_list_doc)) empty_key_list_doc
        (str_split CHR ''.'' []) = Inr (JList [JInt 1])
   \<and> isinstance_list (JList [JInt 1])
   \<and> dumps (JList [JInt 1]) = ''[1]''
   \<and> read_toon (ex_env empty_key_list_doc) ex_fs ''doc.toon'' (Some []) \<noteq> Inr ''[1]''"
proof -
  have "read_toon (ex_env empty_key_list_doc) ex_fs ''doc.toon'' (Some [])
        = Inr (dumps_indent 2 empty_key_list_doc)"
    by (simp add: read_toon_empty read_toon_None [OF ex_file ex_decode])
  moreover have "dumps_indent 2 empty_key_list_doc \<noteq> ''[1]''"
    by (simp add: dumps_indent_def empty_key_list_doc_def)
  moreover have "dumps (JList [JInt 1]) = ''[1]''" by code_simp
  ultimately show ?thesis
    by (simp add: ex_file ex_decode) (simp add: empty_key_list_doc_def dict_get_def)
qed

subsection \<open>C8: where the converted text goes\<close>




subsection \<open>C9: a null that is present reads like a key that is missing\<close>




subsection \<open>C10: the empty field\<close>

text \<open>
  C10. For every TOON file, \<open>read_toon\<close> with the empty string as field extracts no
  field: its result is that of \<open>read_toon\<close> with no field, and when the file is read
  and decoded it is the whole document, printed with an indent of two blanks.
\<close>

theorem empty_field_is_no_field:
  "read_toon E fs path (Some []) = read_toon E fs path None
   \<and> (files fs path = Some contents \<and> toon_decode E contents = Inr doc
      \<longrightarrow> read_toon E fs path (Some []) = Inr (dumps_indent 2 doc))"
  by (simp add: read_toon_empty read_toon_None)

text \<open>The theorem at the document \<^verbatim>\<open>{"style": {"tone": "epic"}}\<close>.\<close>

theorem empty_field_is_no_field_witness:
  "read_toon (ex_env style_doc) ex_fs ''doc.toon'' (Some []) = Inr (dumps_indent 2 style_doc)
   \<and> read_toon (ex_env style_doc) ex_fs ''doc.toon'' (Some [])
     = read_toon (ex_env style_doc) ex_fs ''doc.toon'' None"
  using empty_field_is_no_field [of "ex_env style_doc" ex_fs "''doc.toon''" "''(toon text)''"
      style_doc] ex_file ex_decode [of style_doc]
  by blast

end
